theory Spec2Isabelle
  imports Complex_Main
begin

section \<open>Usage and quota controller (auth\_utils.py, db\_utils.py)\<close>

text \<open>
  The Streamlit session state is a dictionary that \<open>init_session_state\<close> fills with every
  key before any other function runs, so it is a record here. Counters are Python ints.
  \<open>subscription_expires_at\<close> is read with \<open>int(...)\<close> after a truthiness test, so it is an
  optional integer timestamp: \<open>None\<close> and \<open>0\<close> are the falsy values.
\<close>

record session =
  authenticated :: bool
  user_email :: "string option"
  paid_user :: bool
  premium_user :: bool
  usage_count :: int
  premium_usage_count :: int
  subscription_expires_at :: "int option"

definition FREE_USAGE_LIMIT :: int where
  "FREE_USAGE_LIMIT = 6"

definition PREMIUM_USAGE_LIMIT :: int where
  "PREMIUM_USAGE_LIMIT = 20"

text \<open>Truthiness of an optional integer and of an optional string, as Python's \<open>if x\<close>.\<close>

fun truthy_int :: "int option \<Rightarrow> bool" where
  "truthy_int None = False"
| "truthy_int (Some n) = (n \<noteq> 0)"

fun truthy_str :: "string option \<Rightarrow> bool" where
  "truthy_str None = False"
| "truthy_str (Some e) = (e \<noteq> [])"

definition is_premium :: "session \<Rightarrow> bool" where
  \<comment> \<open>the test \<open>paid_user or session_state.get("premium_user", False)\<close>\<close>
  "is_premium s = (paid_user s \<or> premium_user s)"

definition clear_premium :: "session \<Rightarrow> session" where
  "clear_premium s = s\<lparr>paid_user := False, premium_user := False\<rparr>"

text \<open>
  \<open>check_premium_subscription\<close>: the current time \<open>int(datetime.now().timestamp())\<close> is the
  parameter \<open>now\<close>; the result is the returned flag and the session after the call.
\<close>

definition check_premium_subscription :: "int \<Rightarrow> session \<Rightarrow> bool \<times> session" where
  "check_premium_subscription now s =
     (if is_premium s then
        (if truthy_int (subscription_expires_at s) \<and> now > the (subscription_expires_at s)
         then (False, clear_premium s)
         else if premium_usage_count s \<ge> PREMIUM_USAGE_LIMIT
         then (False, clear_premium s)
         else (True, s))
      else (False, s))"

definition check_usage_limit :: "int \<Rightarrow> session \<Rightarrow> bool \<times> session" where
  "check_usage_limit now s =
     (let s1 = snd (check_premium_subscription now s) in
      if is_premium s1 then (premium_usage_count s1 < PREMIUM_USAGE_LIMIT, s1)
      else (usage_count s1 < FREE_USAGE_LIMIT, s1))"

subsection \<open>The backing store\<close>

text \<open>
  One row of table \<open>bbt_user_doctorai\<close> per email; the counters are nullable columns.
  Every database function opens its own connection; a connection can fail
  (\<open>get_db_connection\<close> returns \<open>None\<close>) and a statement can raise. The outcomes of the
  coming database calls are a script carried in the world state, one entry consumed per
  call; once the script is used up every call goes through.
\<close>

record user_row =
  row_usage_count :: "int option"
  row_paid_user :: bool
  row_premium_usage_count :: "int option"
  row_subscription_expires_at :: "int option"

datatype db_outcome = DbOk | ConnFailed | QueryFailed

record world =
  rows :: "string \<rightharpoonup> user_row"
  outcomes :: "db_outcome list"

definition next_outcome :: "world \<Rightarrow> db_outcome \<times> world" where
  "next_outcome w =
     (case outcomes w of
        [] \<Rightarrow> (DbOk, w)
      | oc # rest \<Rightarrow> (oc, w\<lparr>outcomes := rest\<rparr>))"

definition or_zero :: "int option \<Rightarrow> int" where
  \<comment> \<open>\<open>x or 0\<close> on a nullable integer column\<close>
  "or_zero x = (case x of None \<Rightarrow> 0 | Some n \<Rightarrow> n)"

definition get_user_usage_from_db :: "string \<Rightarrow> world \<Rightarrow> int \<times> world" where
  "get_user_usage_from_db email w =
     (let (oc, w1) = next_outcome w in
      case oc of
        ConnFailed \<Rightarrow> (0, w1)
      | QueryFailed \<Rightarrow> (0, w1)
      | DbOk \<Rightarrow>
          (case rows w1 email of
             Some r \<Rightarrow> (or_zero (row_usage_count r), w1)
           | None \<Rightarrow> (0, w1)))"

definition update_user_usage_in_db :: "string \<Rightarrow> int \<Rightarrow> world \<Rightarrow> bool \<times> world" where
  "update_user_usage_in_db email new_count w =
     (let (oc, w1) = next_outcome w in
      case oc of
        ConnFailed \<Rightarrow> (False, w1)
      | QueryFailed \<Rightarrow> (False, w1)
      | DbOk \<Rightarrow>
          (case rows w1 email of
             Some r \<Rightarrow>
               (True, w1\<lparr>rows := (rows w1)(email \<mapsto> r\<lparr>row_usage_count := Some new_count\<rparr>)\<rparr>)
           | None \<Rightarrow> (False, w1)))"

definition increment_usage ::
  "string option \<Rightarrow> session \<Rightarrow> world \<Rightarrow> bool \<times> session \<times> world" where
  "increment_usage arg_email s w =
     (if is_premium s then
        (True, s\<lparr>premium_usage_count := premium_usage_count s + 1\<rparr>, w)
      else
        (let email = (if truthy_str arg_email then arg_email else user_email s) in
         if \<not> truthy_str email then (False, s, w)
         else
           (let (current_db_count, w1) = get_user_usage_from_db (the email) w;
                new_count = current_db_count + 1;
                s1 = s\<lparr>usage_count := new_count\<rparr>;
                (ok, w2) = update_user_usage_in_db (the email) new_count w1
            in (ok, s1, w2))))"

text \<open>The stored usage record of an identity, as \<open>get_user_status_from_db\<close> reads it.\<close>

definition get_user_status_from_db ::
  "string \<Rightarrow> world \<Rightarrow> (int \<times> bool \<times> int \<times> int option) \<times> world" where
  "get_user_status_from_db email w =
     (let (oc, w1) = next_outcome w in
      case oc of
        ConnFailed \<Rightarrow> ((0, False, 0, None), w1)
      | QueryFailed \<Rightarrow> ((0, False, 0, None), w1)
      | DbOk \<Rightarrow>
          (case rows w1 email of
             Some r \<Rightarrow>
               ((or_zero (row_usage_count r), row_paid_user r,
                 or_zero (row_premium_usage_count r), row_subscription_expires_at r), w1)
           | None \<Rightarrow> ((0, False, 0, None), w1)))"

definition stored_usage :: "world \<Rightarrow> string \<Rightarrow> int" where
  \<comment> \<open>the free usage count the store holds for an email (0 when it holds none)\<close>
  "stored_usage w e = (case rows w e of None \<Rightarrow> 0 | Some r \<Rightarrow> or_zero (row_usage_count r))"

text \<open>Repeated \<open>increment_usage()\<close> calls of one session: the returned flags, oldest first.\<close>

fun increment_times :: "nat \<Rightarrow> session \<Rightarrow> world \<Rightarrow> bool list \<times> session \<times> world" where
  "increment_times 0 s w = ([], s, w)"
| "increment_times (Suc n) s w =
     (let (ok, s1, w1) = increment_usage None s w;
          (oks, s2, w2) = increment_times n s1 w1
      in (ok # oks, s2, w2))"

subsection \<open>Concrete sessions and stores used as test inputs\<close>

definition fresh_row :: user_row where
  "fresh_row = \<lparr>row_usage_count = Some 0, row_paid_user = False,
                row_premium_usage_count = Some 0, row_subscription_expires_at = None\<rparr>"

definition free_session :: session where
  "free_session = \<lparr>authenticated = True, user_email = Some ''a@b.c'', paid_user = False,
                   premium_user = False, usage_count = 0, premium_usage_count = 0,
                   subscription_expires_at = None\<rparr>"

definition expired_premium_session :: session where
  "expired_premium_session = \<lparr>authenticated = True, user_email = Some ''a@b.c'',
      paid_user = True, premium_user = False, usage_count = 0, premium_usage_count = 5,
      subscription_expires_at = Some 100\<rparr>"

definition active_premium_session :: session where
  "active_premium_session = \<lparr>authenticated = True, user_email = Some ''a@b.c'',
      paid_user = True, premium_user = False, usage_count = 0, premium_usage_count = 3,
      subscription_expires_at = None\<rparr>"

definition exhausted_premium_session :: session where
  \<comment> \<open>a Premium identity that has used all 20 classifications, with no expiry set\<close>
  "exhausted_premium_session = \<lparr>authenticated = True, user_email = Some ''a@b.c'',
      paid_user = False, premium_user = True, usage_count = 0, premium_usage_count = 20,
      subscription_expires_at = None\<rparr>"

definition last_use_premium_session :: session where
  \<comment> \<open>a Premium identity with one classification left, expiring at time 200\<close>
  "last_use_premium_session = \<lparr>authenticated = True, user_email = Some ''a@b.c'',
      paid_user = True, premium_user = True, usage_count = 0, premium_usage_count = 19,
      subscription_expires_at = Some 200\<rparr>"

definition premium_row :: user_row where
  "premium_row = \<lparr>row_usage_count = Some 0, row_paid_user = True,
                  row_premium_usage_count = Some 3, row_subscription_expires_at = None\<rparr>"

definition store_of :: "user_row \<Rightarrow> db_outcome list \<Rightarrow> world" where
  "store_of r ocs = \<lparr>rows = [''a@b.c'' \<mapsto> r], outcomes = ocs\<rparr>"

section \<open>The X-ray authenticity gate (ui\_utils.py, \<open>is_xray_image\<close>)\<close>

text \<open>
  A numpy array is its shape and its elements in row-major order. The elements are
  floating-point numbers; a finite float is a real number, and the one float value
  that is not a real number and that the function can produce from a non-empty image,
  NaN, is \<open>None\<close> of an option where it can arise: the mean of an empty array of
  differences, and the correlation coefficient.
\<close>

record ndarray =
  shape :: "nat list"
  data :: "real list"

datatype py_error = IndexError | ValueError


text \<open>
  The arithmetic is numpy's, not the repository's, and it rounds: what \<open>np.mean\<close>,
  \<open>np.std\<close>, \<open>np.convolve\<close>, \<open>np.corrcoef\<close> and the elementwise operators return for
  given floats depends on the precision and on the order of the additions. The float
  routines are therefore parameters of the model, one record for each precision the
  function works in: \<open>px\<close> for the precision of the pixel array (float32 as the
  handler passes it) and \<open>dbl\<close> for the double precision of the histogram
  statistics. \<open>f_lit\<close> is the float that a decimal literal of the source denotes.
  Nothing is assumed of these routines.
\<close>

record numerics =
  f_lit :: "real \<Rightarrow> real"
  f_add :: "real \<Rightarrow> real \<Rightarrow> real"
  f_sub :: "real \<Rightarrow> real \<Rightarrow> real"
  f_mul :: "real \<Rightarrow> real \<Rightarrow> real"
  f_div :: "real \<Rightarrow> real \<Rightarrow> real"
  f_mean :: "real list \<Rightarrow> real"
  f_std :: "real list \<Rightarrow> real"
  f_convolve :: "real list \<Rightarrow> real list \<Rightarrow> real list"
  f_corrcoef :: "real list \<Rightarrow> real list \<Rightarrow> real option"

definition mean_nan :: "numerics \<Rightarrow> real list \<Rightarrow> real option" where
  \<comment> \<open>\<open>np.mean\<close> where the array may be empty: the mean of no elements is NaN\<close>
  "mean_nan nx xs = (if xs = [] then None else Some (f_mean nx xs))"

definition nan_gt :: "real option \<Rightarrow> real \<Rightarrow> bool" where
  \<comment> \<open>\<open>x > c\<close> on a float: every comparison with NaN is false\<close>
  "nan_gt x c = (case x of None \<Rightarrow> False | Some v \<Rightarrow> v > c)"

definition nan_add :: "numerics \<Rightarrow> real option \<Rightarrow> real option \<Rightarrow> real option" where
  "nan_add nx x y =
     (case x of None \<Rightarrow> None
      | Some a \<Rightarrow> (case y of None \<Rightarrow> None | Some b \<Rightarrow> Some (f_add nx a b)))"

definition chunks :: "nat \<Rightarrow> 'a list \<Rightarrow> 'a list list" where
  \<comment> \<open>the consecutive groups of \<open>c\<close> elements: the last axis of a row-major array\<close>
  "chunks c xs = map (\<lambda>i. take c (drop (i * c) xs)) [0..<length xs div c]"

definition centered :: "numerics \<Rightarrow> ndarray \<Rightarrow> real list" where
  \<comment> \<open>\<open>img_array - np.mean(img_array, axis=2, keepdims=True)\<close> of a 3-D array\<close>
  "centered px img =
     concat (map (\<lambda>p. map (\<lambda>v. f_sub px v (f_mean px p)) p) (chunks (shape img ! 2) (data img)))"

definition color_variation :: "numerics \<Rightarrow> ndarray \<Rightarrow> real" where
  "color_variation px img = f_std px (centered px img)"

definition to_gray :: "numerics \<Rightarrow> ndarray \<Rightarrow> ndarray" where
  \<comment> \<open>\<open>np.mean(img_array, axis=2)\<close> of a 3-D array\<close>
  "to_gray px img =
     \<lparr>shape = take 2 (shape img),
      data = map (f_mean px) (chunks (shape img ! 2) (data img))\<rparr>"

definition roll :: "int \<Rightarrow> real list \<Rightarrow> real list" where
  \<comment> \<open>\<open>np.roll(a, k)\<close> without an axis: a cyclic shift of the flattened array\<close>
  "roll k xs = map (\<lambda>j. xs ! nat ((int j - k) mod int (length xs))) [0..<length xs]"

definition local_contrast :: "numerics \<Rightarrow> ndarray \<Rightarrow> real list" where
  "local_contrast px g =
     (let w = int (shape g ! 1);
          diffs = map (\<lambda>i. map2 (f_sub px) (roll i (data g)) (data g)) [1, - 1, w, - w]
      in map (\<lambda>j. f_std px (map (\<lambda>d. d ! j) diffs)) [0..<length (data g)])"

definition local_contrast_mean :: "numerics \<Rightarrow> ndarray \<Rightarrow> real" where
  "local_contrast_mean px g = f_mean px (local_contrast px g)"

definition bin_index :: "real \<Rightarrow> nat option" where
  \<comment> \<open>the bin of \<open>np.histogram(bins=256, range=(20, 235))\<close>: 256 equal bins, the last one
      closed on the right, values outside the range dropped. The bin edges
      \<open>20 + i * 215 / 256\<close> are floats, and numpy corrects its first guess of the bin
      against them, so the bins are the exact ones.\<close>
  "bin_index x =
     (if x < 20 \<or> 235 < x then None
      else if x = 235 then Some 255
      else Some (nat \<lfloor>(x - 20) * 256 / 215\<rfloor>))"

definition histogram :: "ndarray \<Rightarrow> nat list" where
  "histogram g = map (\<lambda>i. length (filter (\<lambda>x. bin_index x = Some i) (data g))) [0..<256]"

definition smoothed_hist :: "numerics \<Rightarrow> ndarray \<Rightarrow> real list" where
  \<comment> \<open>\<open>np.convolve(histogram, np.ones(5)/5, mode='valid')\<close>\<close>
  "smoothed_hist dbl g =
     f_convolve dbl (map real (histogram g)) (replicate 5 (f_div dbl 1 5))"

definition hist_peaks :: "numerics \<Rightarrow> real list \<Rightarrow> nat list" where
  \<comment> \<open>\<open>np.where(smoothed > np.mean(smoothed) + 0.5 * np.std(smoothed))[0]\<close>\<close>
  "hist_peaks dbl sm =
     filter (\<lambda>i. sm ! i > f_add dbl (f_mean dbl sm) (f_mul dbl (f_lit dbl 0.5) (f_std dbl sm)))
            [0..<length sm]"

definition peak_spread :: "nat list \<Rightarrow> int" where
  "peak_spread ps =
     (if length ps > 1 then int (fold max ps (hd ps)) - int (fold min ps (hd ps)) else 0)"

definition first_half :: "real list \<Rightarrow> real list" where
  "first_half sm = take (length sm div 2) sm"

definition second_half :: "real list \<Rightarrow> real list" where
  "second_half sm = drop (length sm div 2) sm"

definition symmetry_score :: "numerics \<Rightarrow> real list \<Rightarrow> real option" where
  \<comment> \<open>\<open>np.corrcoef(smoothed[:mid], smoothed[mid:][::-1])[0, 1]\<close>: a float or NaN\<close>
  "symmetry_score dbl sm = f_corrcoef dbl (first_half sm) (rev (second_half sm))"

definition diff_lag :: "numerics \<Rightarrow> nat \<Rightarrow> real list \<Rightarrow> real list" where
  \<comment> \<open>the differences of the elements \<open>k\<close> apart\<close>
  "diff_lag px k xs = map2 (f_sub px) (drop k xs) xs"

definition edges_x :: "numerics \<Rightarrow> ndarray \<Rightarrow> real list" where
  \<comment> \<open>\<open>np.diff(gray_img, axis=1)\<close>\<close>
  "edges_x px g =
     (let inner = prod_list (drop 2 (shape g)) in
      concat (map (diff_lag px inner) (chunks (shape g ! 1 * inner) (data g))))"

definition edges_y :: "numerics \<Rightarrow> ndarray \<Rightarrow> real list" where
  \<comment> \<open>\<open>np.diff(gray_img, axis=0)\<close>\<close>
  "edges_y px g = diff_lag px (prod_list (drop 1 (shape g))) (data g)"

definition edge_intensity :: "numerics \<Rightarrow> ndarray \<Rightarrow> real option" where
  "edge_intensity px g =
     nan_add px (mean_nan px (map abs (edges_x px g))) (mean_nan px (map abs (edges_y px g)))"

definition conditions :: "numerics \<Rightarrow> numerics \<Rightarrow> ndarray \<Rightarrow> bool list" where
  "conditions px dbl g =
     (let mean_intensity = f_mean px (data g);
          std_intensity = f_std px (data g);
          sm = smoothed_hist dbl g;
          peaks = hist_peaks dbl sm
      in [20 < mean_intensity \<and> mean_intensity < 235,
          15 < std_intensity \<and> std_intensity < 80,
          local_contrast_mean px g < 25,
          length peaks \<ge> 2,
          peak_spread peaks > 30,
          nan_gt (symmetry_score dbl sm) (- f_lit dbl 0.3),
          real (fold max (histogram g) 0) < f_mul dbl (real (prod_list (shape g))) (f_lit dbl 0.3)])"

definition gray_of :: "numerics \<Rightarrow> ndarray \<Rightarrow> ndarray" where
  \<comment> \<open>the variable \<open>gray_img\<close>: the channel means of a 3-D array, any other array itself\<close>
  "gray_of px img_array =
     (if length (shape img_array) = 3 then to_gray px img_array else img_array)"

definition is_xray_image :: "numerics \<Rightarrow> numerics \<Rightarrow> ndarray \<Rightarrow> py_error + bool" where
  "is_xray_image px dbl img_array =
     (if length (shape img_array) = 3 \<and> color_variation px img_array > 25 then Inr False
      else
        (let gray_img = gray_of px img_array in
         if length (shape gray_img) < 2 then Inl IndexError
         else if nan_gt (edge_intensity px gray_img) 30 then Inr False
         else Inr (list_all (\<lambda>c. c) (conditions px dbl gray_img))))"

subsection \<open>Exact arithmetic\<close>

text \<open>
  The routines without rounding. They are not the code's arithmetic; they give one
  instance of the parameters, used to run the model on test inputs that lie far from
  every threshold.
\<close>

definition np_mean :: "real list \<Rightarrow> real" where
  "np_mean xs = sum_list xs / real (length xs)"

definition np_var :: "real list \<Rightarrow> real" where
  "np_var xs = np_mean (map (\<lambda>x. (x - np_mean xs)\<^sup>2) xs)"

definition np_std :: "real list \<Rightarrow> real" where
  "np_std xs = sqrt (np_var xs)"

definition np_convolve_valid :: "real list \<Rightarrow> real list \<Rightarrow> real list" where
  \<comment> \<open>\<open>np.convolve(a, v, mode='valid')\<close> for \<open>len(v) \<le> len(a)\<close>\<close>
  "np_convolve_valid a v =
     map (\<lambda>i. \<Sum>k\<leftarrow>[0..<length v]. a ! (i + k) * v ! (length v - 1 - k))
         [0..<length a + 1 - length v]"

definition np_cov :: "real list \<Rightarrow> real list \<Rightarrow> real" where
  \<comment> \<open>an entry of \<open>np.cov\<close>: products of the deviations from the means, over \<open>N - 1\<close>\<close>
  "np_cov x y =
     (\<Sum>(a, b)\<leftarrow>zip x y. (a - np_mean x) * (b - np_mean y)) / (real (length x) - 1)"

definition np_corrcoef :: "real list \<Rightarrow> real list \<Rightarrow> real option" where
  \<comment> \<open>the covariance divided by the two standard deviations, then clipped to \<open>[-1, 1]\<close>;
      \<open>0 / 0\<close> is NaN and a non-zero numerator over zero an infinity, clipped to \<open>1\<close> or \<open>-1\<close>\<close>
  "np_corrcoef x y =
     (let c = np_cov x y; sx = sqrt (np_cov x x); sy = sqrt (np_cov y y) in
      if sx = 0 \<or> sy = 0 then (if c = 0 then None else Some (if c > 0 then 1 else - 1))
      else Some (max (- 1) (min 1 (c / sx / sy))))"

definition exact_numerics :: numerics where
  "exact_numerics =
     \<lparr>f_lit = (\<lambda>x. x), f_add = (\<lambda>a b. a + b), f_sub = (\<lambda>a b. a - b),
      f_mul = (\<lambda>a b. a * b), f_div = (\<lambda>a b. a / b), f_mean = np_mean, f_std = np_std,
      f_convolve = np_convolve_valid, f_corrcoef = np_corrcoef\<rparr>"

section \<open>The request handler (app.py)\<close>

text \<open>
  The two trained models are parameters: the primary one maps the scaled input to its
  probability vector, the secondary one to its single probability. Every call of a
  model is appended to a trace, so that what was invoked can be stated. What the
  handler shows is a report: the class name and the confidence printed in the message
  (as a fraction, the source prints it times 100), whether the message is the
  specialist's, and the note under it.
\<close>

datatype model_call = MultiModel | EdemaModel

datatype advice = NoSignsOfDisease | ConsultProfessional | SecondOpinionLikelyNotEdema

record report =
  class_name :: string
  confidence :: real
  specialist_opinion :: bool
  shown_note :: advice

definition MULTI_CLASS_NAMES :: "string list" where
  "MULTI_CLASS_NAMES = [''Edema'', ''Normal'', ''Pneumonia'', ''Tuberculosis'', ''Effusion'']"

definition np_argmax :: "real list \<Rightarrow> nat" where
  \<comment> \<open>the first index of the largest element\<close>
  "np_argmax xs = length (takeWhile (\<lambda>x. x \<noteq> fold max xs (hd xs)) xs)"

definition preprocess :: "ndarray \<Rightarrow> ndarray" where
  \<comment> \<open>\<open>np.expand_dims(img_for_model, axis=0) / 255.0\<close>\<close>
  "preprocess img = \<lparr>shape = 1 # shape img, data = map (\<lambda>v. v / 255) (data img)\<rparr>"

definition primary_top_class :: "real list \<Rightarrow> py_error + string" where
  \<comment> \<open>\<open>MULTI_CLASS_NAMES[np.argmax(multi_prediction)]\<close>\<close>
  "primary_top_class pred =
     (if pred = [] then Inl ValueError
      else if np_argmax pred \<ge> length MULTI_CLASS_NAMES then Inl IndexError
      else Inr (MULTI_CLASS_NAMES ! np_argmax pred))"

definition display :: "string \<Rightarrow> real \<Rightarrow> real option \<Rightarrow> report" where
  "display predicted_class_name conf edema_prediction =
     (if predicted_class_name = ''Normal'' then
        \<lparr>class_name = predicted_class_name, confidence = conf,
         specialist_opinion = False, shown_note = NoSignsOfDisease\<rparr>
      else if predicted_class_name = ''Edema'' \<and> edema_prediction \<noteq> None then
        (if the edema_prediction \<ge> 0.5 then
           \<lparr>class_name = ''Edema'', confidence = the edema_prediction,
            specialist_opinion = True, shown_note = ConsultProfessional\<rparr>
         else
           \<lparr>class_name = predicted_class_name, confidence = conf,
            specialist_opinion = False, shown_note = SecondOpinionLikelyNotEdema\<rparr>)
      else
        \<lparr>class_name = predicted_class_name, confidence = conf,
         specialist_opinion = False, shown_note = ConsultProfessional\<rparr>)"

definition classify ::
  "ndarray \<Rightarrow> (ndarray \<Rightarrow> real list) \<Rightarrow> (ndarray \<Rightarrow> real) \<Rightarrow> (py_error + report) \<times> model_call list" where
  "classify img_for_model multi_model edema_model =
     (let img_array = preprocess img_for_model;
          multi_prediction = multi_model img_array
      in case primary_top_class multi_prediction of
           Inl e \<Rightarrow> (Inl e, [MultiModel])
         | Inr predicted_class_name \<Rightarrow>
             (let conf = multi_prediction ! np_argmax multi_prediction in
              if predicted_class_name = ''Edema''
              then (Inr (display predicted_class_name conf (Some (edema_model img_array))),
                    [MultiModel, EdemaModel])
              else (Inr (display predicted_class_name conf None), [MultiModel])))"

datatype outcome =
    Unauthorized | NoUpload | LimitReached | TrackingFailed | NotXray
  | Raised py_error | Predicted report

record run =
  outcome :: outcome
  final_session :: session
  final_world :: world
  model_calls :: "model_call list"

text \<open>
  \<open>main\<close>: \<open>uploaded\<close> is the pixel array decoded from the uploaded file, \<open>None\<close> when
  nothing is uploaded (the decoding, the sidebar and the page layout are not modelled);
  \<open>px\<close> and \<open>dbl\<close> are the float routines that the gate runs on.
\<close>

definition main ::
  "numerics \<Rightarrow> numerics \<Rightarrow> int \<Rightarrow> session \<Rightarrow> world \<Rightarrow> ndarray option \<Rightarrow>
   (ndarray \<Rightarrow> real list) \<Rightarrow> (ndarray \<Rightarrow> real) \<Rightarrow> run" where
  "main px dbl now s w uploaded multi_model edema_model =
     (if \<not> authenticated s then
        \<lparr>outcome = Unauthorized, final_session = s, final_world = w, model_calls = []\<rparr>
      else case uploaded of
        None \<Rightarrow> \<lparr>outcome = NoUpload, final_session = s, final_world = w, model_calls = []\<rparr>
      | Some img_for_model \<Rightarrow>
          (let (allowed, s1) = check_usage_limit now s in
           if \<not> allowed then
             \<lparr>outcome = LimitReached, final_session = s1, final_world = w, model_calls = []\<rparr>
           else
             (let (tracked, s2, w2) = increment_usage None s1 w in
              if \<not> tracked then
                \<lparr>outcome = TrackingFailed, final_session = s2, final_world = w2, model_calls = []\<rparr>
              else
                (case is_xray_image px dbl img_for_model of
                   Inl e \<Rightarrow>
                     \<lparr>outcome = Raised e, final_session = s2, final_world = w2, model_calls = []\<rparr>
                 | Inr False \<Rightarrow>
                     \<lparr>outcome = NotXray, final_session = s2, final_world = w2, model_calls = []\<rparr>
                 | Inr True \<Rightarrow>
                     (let (res, calls) = classify img_for_model multi_model edema_model in
                      \<lparr>outcome = (case res of Inl e \<Rightarrow> Raised e | Inr r \<Rightarrow> Predicted r),
                       final_session = s2, final_world = w2, model_calls = calls\<rparr>)))))"

subsection \<open>Concrete images and models used as test inputs\<close>

definition colourful_pixel :: ndarray where
  \<comment> \<open>a single pixel whose three channels differ widely\<close>
  "colourful_pixel = \<lparr>shape = [1, 1, 3], data = [0, 100, 200]\<rparr>"

definition dark_pixel :: ndarray where
  \<comment> \<open>a single grey pixel below the histogram range\<close>
  "dark_pixel = \<lparr>shape = [1, 1], data = [0]\<rparr>"

definition edema_first :: "ndarray \<Rightarrow> real list" where
  "edema_first img = [7 / 10, 1 / 10, 1 / 10, 1 / 20, 1 / 20]"

definition normal_first :: "ndarray \<Rightarrow> real list" where
  "normal_first img = [1 / 10, 7 / 10, 1 / 10, 1 / 20, 1 / 20]"

definition second_says :: "real \<Rightarrow> ndarray \<Rightarrow> real" where
  "second_says p img = p"

section \<open>Properties of the quota controller\<close>

lemmas quota_defs = check_usage_limit_def check_premium_subscription_def is_premium_def
  clear_premium_def FREE_USAGE_LIMIT_def PREMIUM_USAGE_LIMIT_def

lemmas db_defs = increment_usage_def get_user_usage_from_db_def update_user_usage_in_db_def
  next_outcome_def or_zero_def get_user_status_from_db_def

lemmas input_defs = free_session_def expired_premium_session_def active_premium_session_def
  exhausted_premium_session_def last_use_premium_session_def
  fresh_row_def premium_row_def store_of_def

lemma check_usage_limit_counters:
  "usage_count (snd (check_usage_limit now s)) = usage_count s
   \<and> premium_usage_count (snd (check_usage_limit now s)) = premium_usage_count s"
  by (simp add: quota_defs Let_def)

text \<open>
  C2, as stated, fails: for a Premium identity whose subscription has expired and whose
  free counter is below 6, \<open>check_usage_limit\<close> clears the premium flags and then
  answers the free-tier question, so it returns true.
\<close>

theorem expired_premium_still_allowed:
  "is_premium expired_premium_session
   \<and> subscription_expires_at expired_premium_session = Some 100
   \<and> (200::int) > 100
   \<and> premium_usage_count expired_premium_session < 20
   \<and> fst (check_usage_limit 200 expired_premium_session) = True"
  by (simp add: quota_defs input_defs)

text \<open>
  C2, amended: for a Premium identity whose expiry is set (non-zero) and lies before
  \<open>now\<close>, \<open>check_premium_subscription\<close> returns false and clears both premium flags, and
  \<open>check_usage_limit\<close> demotes the identity in the same way and returns whether the free
  counter is below 6, whatever the premium counter is.
\<close>

theorem expired_premium_demoted:
  assumes "is_premium s" and "subscription_expires_at s = Some e" and "e \<noteq> 0" and "now > e"
  shows "check_premium_subscription now s = (False, clear_premium s)
         \<and> \<not> is_premium (clear_premium s)
         \<and> check_usage_limit now s = (usage_count s < FREE_USAGE_LIMIT, clear_premium s)"
  using assms by (simp add: quota_defs)

theorem expired_premium_demoted_witness:
  "is_premium expired_premium_session
   \<and> subscription_expires_at expired_premium_session = Some 100
   \<and> (100::int) \<noteq> 0 \<and> (200::int) > 100
   \<and> check_premium_subscription 200 expired_premium_session =
       (False, clear_premium expired_premium_session)
   \<and> \<not> is_premium (clear_premium expired_premium_session)
   \<and> check_usage_limit 200 expired_premium_session =
       (True, clear_premium expired_premium_session)"
proof -
  have a: "is_premium expired_premium_session"
    by (simp add: is_premium_def input_defs)
  have b: "subscription_expires_at expired_premium_session = Some 100"
    by (simp add: input_defs)
  have c: "usage_count expired_premium_session < FREE_USAGE_LIMIT"
    by (simp add: input_defs FREE_USAGE_LIMIT_def)
  show ?thesis
    using expired_premium_demoted [OF a b, of 200] a b c by simp
qed

text \<open>
  C9, as stated, fails: \<open>check_usage_limit\<close> on a Premium identity whose subscription has
  expired clears the \<open>paid_user\<close> flag of the session.
\<close>

theorem check_usage_limit_clears_flags:
  "paid_user expired_premium_session
   \<and> \<not> paid_user (snd (check_usage_limit 200 expired_premium_session))
   \<and> snd (check_usage_limit 200 expired_premium_session) \<noteq> expired_premium_session"
  by (simp add: quota_defs input_defs)

text \<open>
  C9, amended: \<open>check_usage_limit\<close> never changes the counters, the expiry, the email or
  the authentication flag, and it has no access to the store. It changes the session
  only by clearing the two premium flags, and it does so exactly when the identity is
  Premium (one of the flags is set) and either the expiry is set, non-zero and earlier
  than \<open>now\<close>, or the premium counter has reached 20; for a Free identity and for an
  active Premium one the session is left as it was.
\<close>

theorem check_usage_limit_effect:
  "snd (check_usage_limit now s) =
     (if (paid_user s \<or> premium_user s)
         \<and> ((case subscription_expires_at s of None \<Rightarrow> False | Some e \<Rightarrow> e \<noteq> 0 \<and> e < now)
            \<or> 20 \<le> premium_usage_count s)
      then s\<lparr>paid_user := False, premium_user := False\<rparr>
      else s)
   \<and> usage_count (snd (check_usage_limit now s)) = usage_count s
   \<and> premium_usage_count (snd (check_usage_limit now s)) = premium_usage_count s
   \<and> subscription_expires_at (snd (check_usage_limit now s)) = subscription_expires_at s
   \<and> user_email (snd (check_usage_limit now s)) = user_email s
   \<and> authenticated (snd (check_usage_limit now s)) = authenticated s"
  by (cases "subscription_expires_at s") (simp_all add: quota_defs Let_def)

theorem check_usage_limit_effect_witness:
  "snd (check_usage_limit 200 expired_premium_session) =
     expired_premium_session\<lparr>paid_user := False, premium_user := False\<rparr>
   \<and> snd (check_usage_limit 200 exhausted_premium_session) =
     exhausted_premium_session\<lparr>paid_user := False, premium_user := False\<rparr>
   \<and> snd (check_usage_limit 200 last_use_premium_session) = last_use_premium_session
   \<and> snd (check_usage_limit 201 last_use_premium_session) =
     last_use_premium_session\<lparr>paid_user := False, premium_user := False\<rparr>
   \<and> snd (check_usage_limit 200 active_premium_session) = active_premium_session
   \<and> snd (check_usage_limit 200 free_session) = free_session"
  using check_usage_limit_effect [of 200 expired_premium_session]
        check_usage_limit_effect [of 200 exhausted_premium_session]
        check_usage_limit_effect [of 200 last_use_premium_session]
        check_usage_limit_effect [of 201 last_use_premium_session]
        check_usage_limit_effect [of 200 active_premium_session]
        check_usage_limit_effect [of 200 free_session]
  by (simp add: input_defs)

text \<open>
  C3: for a Premium identity \<open>increment_usage\<close> returns true and adds 1 to the premium
  counter of the session, but it returns before any database call: the store is left as
  it was, and reading the stored record afterwards still gives the old premium count
  (here 3, while the session says 4).
\<close>

theorem premium_increment_not_persisted:
  "is_premium active_premium_session
   \<and> premium_usage_count active_premium_session = 3
   \<and> increment_usage None active_premium_session (store_of premium_row []) =
       (True, active_premium_session\<lparr>premium_usage_count := 4\<rparr>, store_of premium_row [])
   \<and> fst (get_user_status_from_db ''a@b.c'' (store_of premium_row [])) = (0, True, 3, None)"
  by (simp add: db_defs is_premium_def input_defs)

text \<open>
  While every database call goes through, six \<open>increment_usage\<close> calls of a fresh Free
  identity all succeed, bring the stored and the session counter to 6, and the next
  \<open>check_usage_limit\<close> returns false.
\<close>

lemma increment_usage_healthy:
  assumes "\<not> is_premium s" and "user_email s = Some e" and "e \<noteq> []"
    and "rows w e = Some r" and "outcomes w = []"
  shows "increment_usage None s w =
           (True, s\<lparr>usage_count := stored_usage w e + 1\<rparr>,
            w\<lparr>rows := (rows w)(e \<mapsto> r\<lparr>row_usage_count := Some (stored_usage w e + 1)\<rparr>)\<rparr>)"
  using assms by (simp add: db_defs stored_usage_def Let_def)

lemma six_increments_healthy:
  "increment_times 6 free_session (store_of fresh_row []) =
     (replicate 6 True, free_session\<lparr>usage_count := 6\<rparr>,
      store_of (fresh_row\<lparr>row_usage_count := Some 6\<rparr>) [])
   \<and> fst (check_usage_limit 0 (free_session\<lparr>usage_count := 6\<rparr>)) = False"
  by (simp add: db_defs quota_defs input_defs eval_nat_numeral)

text \<open>
  C7: \<open>get_user_usage_from_db\<close> answers 0 when its connection fails, and
  \<open>increment_usage\<close> takes that 0 for the stored count. Here the first five calls go
  through and the read of the sixth call fails while its update goes through: all six
  calls return true, yet the sixth writes 1 over the stored 5, and the seventh
  \<open>check_usage_limit\<close> returns true.
\<close>

theorem read_failure_resets_free_count:
  "increment_times 5 free_session (store_of fresh_row (replicate 10 DbOk @ [ConnFailed])) =
     (replicate 5 True, free_session\<lparr>usage_count := 5\<rparr>,
      store_of (fresh_row\<lparr>row_usage_count := Some 5\<rparr>) [ConnFailed])
   \<and> increment_times 6 free_session (store_of fresh_row (replicate 10 DbOk @ [ConnFailed])) =
     (replicate 6 True, free_session\<lparr>usage_count := 1\<rparr>,
      store_of (fresh_row\<lparr>row_usage_count := Some 1\<rparr>) [])
   \<and> fst (check_usage_limit 0 (free_session\<lparr>usage_count := 1\<rparr>)) = True"
  by (simp add: db_defs quota_defs input_defs eval_nat_numeral)

text \<open>
  C10, as stated, fails: when the connection of the read fails as well (the ordinary
  outage), \<open>get_user_usage_from_db\<close> answers 0 and the session counter is set to 1, not
  to the stored count plus 1. Here the store holds 4 and both connections fail.
\<close>

theorem failed_read_sets_session_to_one:
  "\<not> is_premium free_session
   \<and> stored_usage (store_of (fresh_row\<lparr>row_usage_count := Some 4\<rparr>) [ConnFailed, ConnFailed])
        ''a@b.c'' = 4
   \<and> increment_usage None free_session
       (store_of (fresh_row\<lparr>row_usage_count := Some 4\<rparr>) [ConnFailed, ConnFailed])
       = (False, free_session\<lparr>usage_count := 1\<rparr>,
          store_of (fresh_row\<lparr>row_usage_count := Some 4\<rparr>) [])"
  by (simp add: db_defs is_premium_def input_defs stored_usage_def)

text \<open>
  C10, amended: for a Free identity with an email, \<open>increment_usage\<close> writes the
  incremented count into the session before it attempts the update; when the read of
  the stored count goes through and the update then fails (its connection fails, a
  statement raises, or the row is missing), \<open>increment_usage\<close> returns false, the store
  keeps its rows, and the session's \<open>usage_count\<close> has been set to the stored count
  plus 1.
\<close>

theorem failed_update_moves_session_count:
  assumes "\<not> is_premium s"
    and "(if truthy_str arg then arg else user_email s) = Some e" and "e \<noteq> []"
    and "next_outcome w = (DbOk, w1)" and "next_outcome w1 = (oc, w2)"
    and "oc \<noteq> DbOk \<or> rows w e = None"
  shows "increment_usage arg s w = (False, s\<lparr>usage_count := stored_usage w e + 1\<rparr>, w2)
         \<and> rows w2 = rows w"
proof -
  have r1: "rows w1 = rows w" and r2: "rows w2 = rows w1"
    using assms(4,5) by (auto simp: next_outcome_def split: list.splits)
  have g: "get_user_usage_from_db e w = (stored_usage w e, w1)"
    using assms(4) r1
    by (simp add: get_user_usage_from_db_def stored_usage_def split: option.splits)
  have u: "update_user_usage_in_db e n w1 = (False, w2)" for n
    using assms(5,6) r1 r2 by (cases oc) (auto simp: update_user_usage_in_db_def)
  show ?thesis
    using assms(1,2,3) g u r1 r2 by (auto simp: increment_usage_def split: if_splits)
qed

theorem failed_update_moves_session_count_witness:
  "\<not> is_premium free_session
   \<and> usage_count free_session = 0
   \<and> increment_usage None free_session
       (store_of (fresh_row\<lparr>row_usage_count := Some 4\<rparr>) [DbOk, ConnFailed])
       = (False, free_session\<lparr>usage_count := 5\<rparr>,
          store_of (fresh_row\<lparr>row_usage_count := Some 4\<rparr>) [])"
proof -
  let ?w = "store_of (fresh_row\<lparr>row_usage_count := Some 4\<rparr>) [DbOk, ConnFailed]"
  let ?w1 = "store_of (fresh_row\<lparr>row_usage_count := Some 4\<rparr>) [ConnFailed]"
  let ?w2 = "store_of (fresh_row\<lparr>row_usage_count := Some 4\<rparr>) []"
  have a: "\<not> is_premium free_session"
    by (simp add: is_premium_def free_session_def)
  have b: "(if truthy_str None then None else user_email free_session) = Some ''a@b.c''"
    by (simp add: free_session_def)
  have c: "''a@b.c'' \<noteq> []" by simp
  have d: "next_outcome ?w = (DbOk, ?w1)"
    by (simp add: next_outcome_def store_of_def)
  have e: "next_outcome ?w1 = (ConnFailed, ?w2)"
    by (simp add: next_outcome_def store_of_def)
  have f: "ConnFailed \<noteq> DbOk \<or> rows ?w ''a@b.c'' = None" by simp
  have g: "stored_usage ?w ''a@b.c'' = 4"
    by (simp add: stored_usage_def store_of_def fresh_row_def or_zero_def)
  show ?thesis
    using failed_update_moves_session_count [OF a b c d e f] a g
    by (simp add: free_session_def)
qed

section \<open>Properties of the authenticity gate\<close>


lemma colourful_pixel_centered:
  "concat (map (\<lambda>p. map (\<lambda>v. f_sub exact_numerics v (f_mean exact_numerics p)) p)
     (chunks (shape colourful_pixel ! 2) (data colourful_pixel))) = [- 100, 0, 100]"
proof -
  have "chunks 3 [0, 100, 200::real] = [[0, 100, 200]]"
    by (simp add: chunks_def)
  then show ?thesis
    by (simp add: colourful_pixel_def exact_numerics_def np_mean_def)
qed

lemma colourful_pixel_std: "f_std exact_numerics [- 100, 0, 100] > 25"
proof -
  have v: "np_var [- 100, 0, 100] = 20000 / 3"
    by (simp add: np_var_def np_mean_def)
  have "(25::real) < sqrt (20000 / 3)"
    by (rule real_less_rsqrt) simp
  then have "25 < np_std [- 100, 0, 100]"
    by (simp only: np_std_def v)
  then show ?thesis
    by (simp add: exact_numerics_def)
qed

lemma colourful_pixel_rejected:
  "is_xray_image exact_numerics exact_numerics colourful_pixel = Inr False"
proof -
  have "color_variation exact_numerics colourful_pixel > 25"
    using colourful_pixel_std
    by (simp only: color_variation_def centered_def colourful_pixel_centered)
  then show ?thesis
    by (simp add: is_xray_image_def colourful_pixel_def)
qed



section \<open>Properties of the request handler\<close>

lemma edema_first_top: "primary_top_class (edema_first x) = Inr ''Edema''"
  by (simp add: primary_top_class_def edema_first_def np_argmax_def MULTI_CLASS_NAMES_def)

lemma normal_first_top: "primary_top_class (normal_first x) = Inr ''Normal''"
  by (simp add: primary_top_class_def normal_first_def np_argmax_def MULTI_CLASS_NAMES_def)

text \<open>
  C1, as stated, fails: \<open>main\<close> calls \<open>increment_usage\<close> before \<open>is_xray_image\<close>. For a
  fresh Free identity and an upload that the gate rejects, the request ends with the
  non-X-ray error while the session counter and the stored counter have gone from 0 to 1.
\<close>

theorem gate_rejection_after_increment:
  "is_xray_image exact_numerics exact_numerics colourful_pixel = Inr False
   \<and> outcome (main exact_numerics exact_numerics 0 free_session (store_of fresh_row [])
        (Some colourful_pixel) edema_first (second_says (3 / 10))) = NotXray
   \<and> usage_count free_session = 0
   \<and> usage_count (final_session (main exact_numerics exact_numerics 0 free_session
        (store_of fresh_row []) (Some colourful_pixel) edema_first (second_says (3 / 10)))) = 1
   \<and> rows (final_world (main exact_numerics exact_numerics 0 free_session
        (store_of fresh_row []) (Some colourful_pixel) edema_first (second_says (3 / 10))))
        ''a@b.c''
      = Some (fresh_row\<lparr>row_usage_count := Some 1\<rparr>)"
  by (simp add: main_def colourful_pixel_rejected db_defs quota_defs input_defs)

text \<open>
  C1, amended: the quota check short-circuits before any usage increment and before any
  classifier invocation (when it refuses, no model is called, the store is untouched
  and both counters keep their values); the authenticity gate short-circuits before
  any classifier invocation (when it rejects the upload, no model is called); but the
  gate runs after \<open>increment_usage\<close>, so a request rejected by the gate has passed the
  quota check and its usage increment has been recorded.
\<close>

theorem short_circuit_order:
  "(\<not> fst (check_usage_limit now s) \<longrightarrow>
      model_calls (main px dbl now s w up mm em) = []
      \<and> final_world (main px dbl now s w up mm em) = w
      \<and> usage_count (final_session (main px dbl now s w up mm em)) = usage_count s
      \<and> premium_usage_count (final_session (main px dbl now s w up mm em)) =
          premium_usage_count s)
   \<and> (up = Some img \<and> is_xray_image px dbl img = Inr False \<longrightarrow>
      model_calls (main px dbl now s w up mm em) = [])
   \<and> (outcome (main px dbl now s w up mm em) = NotXray \<longrightarrow>
      fst (check_usage_limit now s)
      \<and> increment_usage None (snd (check_usage_limit now s)) w =
          (True, final_session (main px dbl now s w up mm em),
           final_world (main px dbl now s w up mm em)))"
proof -
  have a: "model_calls (main px dbl now s w up mm em) = []
      \<and> final_world (main px dbl now s w up mm em) = w
      \<and> usage_count (final_session (main px dbl now s w up mm em)) = usage_count s
      \<and> premium_usage_count (final_session (main px dbl now s w up mm em)) =
          premium_usage_count s"
    if "\<not> fst (check_usage_limit now s)"
    using that check_usage_limit_counters [of now s]
    by (cases "check_usage_limit now s") (simp add: main_def split: option.splits)
  have b: "model_calls (main px dbl now s w up mm em) = []"
    if "up = Some img \<and> is_xray_image px dbl img = Inr False"
    using that by (simp add: main_def split: prod.splits)
  have c: "fst (check_usage_limit now s)
      \<and> increment_usage None (snd (check_usage_limit now s)) w =
          (True, final_session (main px dbl now s w up mm em),
           final_world (main px dbl now s w up mm em))"
    if "outcome (main px dbl now s w up mm em) = NotXray"
    using that
    by (cases "check_usage_limit now s")
       (auto simp: main_def split: option.splits if_splits prod.splits sum.splits bool.splits)
  from a b c show ?thesis by blast
qed

theorem short_circuit_order_witness:
  "\<not> fst (check_usage_limit 0 (free_session\<lparr>usage_count := 6\<rparr>))
   \<and> final_world (main exact_numerics exact_numerics 0 (free_session\<lparr>usage_count := 6\<rparr>)
        (store_of fresh_row []) (Some colourful_pixel) edema_first (second_says (3 / 10)))
      = store_of fresh_row []
   \<and> model_calls (main exact_numerics exact_numerics 0 (free_session\<lparr>usage_count := 6\<rparr>)
        (store_of fresh_row []) (Some colourful_pixel) edema_first (second_says (3 / 10))) = []
   \<and> is_xray_image exact_numerics exact_numerics colourful_pixel = Inr False
   \<and> outcome (main exact_numerics exact_numerics 0 free_session (store_of fresh_row [])
        (Some colourful_pixel) edema_first (second_says (3 / 10))) = NotXray
   \<and> model_calls (main exact_numerics exact_numerics 0 free_session (store_of fresh_row [])
        (Some colourful_pixel) edema_first (second_says (3 / 10))) = []
   \<and> fst (increment_usage None (snd (check_usage_limit 0 free_session)) (store_of fresh_row []))"
proof -
  have a: "\<not> fst (check_usage_limit 0 (free_session\<lparr>usage_count := 6\<rparr>))"
    by (simp add: quota_defs free_session_def)
  have b: "outcome (main exact_numerics exact_numerics 0 free_session (store_of fresh_row [])
        (Some colourful_pixel) edema_first (second_says (3 / 10))) = NotXray"
    by (simp add: main_def colourful_pixel_rejected db_defs quota_defs input_defs)
  show ?thesis
    using short_circuit_order [where px = exact_numerics and dbl = exact_numerics
            and now = 0 and s = "free_session\<lparr>usage_count := 6\<rparr>"
            and w = "store_of fresh_row []" and up = "Some colourful_pixel"
            and img = colourful_pixel and mm = edema_first and em = "second_says (3 / 10)"]
          short_circuit_order [where px = exact_numerics and dbl = exact_numerics
            and now = 0 and s = free_session
            and w = "store_of fresh_row []" and up = "Some colourful_pixel"
            and img = colourful_pixel and mm = edema_first and em = "second_says (3 / 10)"]
          a b colourful_pixel_rejected
    by simp
qed

text \<open>
  C6: when the primary classifier's top class is Edema, the secondary classifier has
  run; with a secondary probability of at least 0.5 the report is Edema with the
  secondary probability as confidence, marked as the specialist's opinion; below 0.5
  the report is still Edema (never NotEdema) with the primary confidence, under the
  note that a second opinion suggests this is likely not Edema.
\<close>

theorem edema_second_opinion:
  assumes "primary_top_class (mm (preprocess img)) = Inr ''Edema''"
  shows "fst (classify img mm em) =
           Inr (if em (preprocess img) \<ge> 0.5
                then \<lparr>class_name = ''Edema'', confidence = em (preprocess img),
                      specialist_opinion = True, shown_note = ConsultProfessional\<rparr>
                else \<lparr>class_name = ''Edema'',
                      confidence = mm (preprocess img) ! np_argmax (mm (preprocess img)),
                      specialist_opinion = False, shown_note = SecondOpinionLikelyNotEdema\<rparr>)"
  using assms by (simp add: classify_def display_def Let_def)

theorem edema_second_opinion_witness:
  "primary_top_class (edema_first (preprocess dark_pixel)) = Inr ''Edema''
   \<and> fst (classify dark_pixel edema_first (second_says (3 / 10))) =
       Inr \<lparr>class_name = ''Edema'', confidence = 7 / 10,
            specialist_opinion = False, shown_note = SecondOpinionLikelyNotEdema\<rparr>
   \<and> fst (classify dark_pixel edema_first (second_says (9 / 10))) =
       Inr \<lparr>class_name = ''Edema'', confidence = 9 / 10,
            specialist_opinion = True, shown_note = ConsultProfessional\<rparr>"
proof -
  have conf:
    "edema_first (preprocess dark_pixel) ! np_argmax (edema_first (preprocess dark_pixel)) = 7 / 10"
    by (simp add: edema_first_def np_argmax_def)
  have t: "primary_top_class (edema_first (preprocess dark_pixel)) = Inr ''Edema''"
    by (rule edema_first_top)
  have a: "fst (classify dark_pixel edema_first (second_says (3 / 10))) =
       Inr \<lparr>class_name = ''Edema'', confidence = 7 / 10,
            specialist_opinion = False, shown_note = SecondOpinionLikelyNotEdema\<rparr>"
    using edema_second_opinion
      [where mm = edema_first and img = dark_pixel and em = "second_says (3 / 10)", OF t]
    by (simp add: conf second_says_def)
  have b: "fst (classify dark_pixel edema_first (second_says (9 / 10))) =
       Inr \<lparr>class_name = ''Edema'', confidence = 9 / 10,
            specialist_opinion = True, shown_note = ConsultProfessional\<rparr>"
    using edema_second_opinion
      [where mm = edema_first and img = dark_pixel and em = "second_says (9 / 10)", OF t]
    by (simp add: second_says_def)
  from t a b show ?thesis by simp
qed

text \<open>
  C8: the classification stage calls the secondary classifier if and only if the top
  class of the primary prediction is Edema; and the models that a whole request calls
  are either none or exactly those of the classification stage of an accepted upload.
\<close>

theorem secondary_iff_edema:
  "(EdemaModel \<in> set (snd (classify img mm em))
      \<longleftrightarrow> primary_top_class (mm (preprocess img)) = Inr ''Edema'')
   \<and> (model_calls (main px dbl now s w up mm em) = []
      \<or> (\<exists>x. up = Some x \<and> is_xray_image px dbl x = Inr True
             \<and> model_calls (main px dbl now s w up mm em) = snd (classify x mm em)))"
proof
  show "EdemaModel \<in> set (snd (classify img mm em))
      \<longleftrightarrow> primary_top_class (mm (preprocess img)) = Inr ''Edema''"
    by (auto simp: classify_def Let_def split: sum.splits)
  show "model_calls (main px dbl now s w up mm em) = []
      \<or> (\<exists>x. up = Some x \<and> is_xray_image px dbl x = Inr True
             \<and> model_calls (main px dbl now s w up mm em) = snd (classify x mm em))"
    by (auto simp: main_def Let_def split: option.splits prod.splits sum.splits bool.splits)
qed

theorem secondary_iff_edema_witness:
  "EdemaModel \<in> set (snd (classify dark_pixel edema_first (second_says (3 / 10))))
   \<and> EdemaModel \<notin> set (snd (classify dark_pixel normal_first (second_says (3 / 10))))"
  using secondary_iff_edema
          [where img = dark_pixel and mm = edema_first and em = "second_says (3 / 10)"]
        secondary_iff_edema
          [where img = dark_pixel and mm = normal_first and em = "second_says (3 / 10)"]
  by (simp add: edema_first_top normal_first_top)

end
